theory Spec2Isabelle
  imports Main "HOL-Library.Word" "HOL-Library.Sublist" "HOL-Library.List_Lexorder"
begin

section \<open>JavaScript strings and numbers\<close>

text \<open>
  A JavaScript string is a sequence of 16-bit code units; \<open>substring\<close>, \<open>split\<close> and
  \<open>length\<close> count code units. An ASCII literal of the source is written \<open>lit ''...''\<close>.
\<close>

type_synonym code_unit = "16 word"
type_synonym jstring = "code_unit list"

definition lit :: "string \<Rightarrow> jstring" where
  "lit s = map of_char s"

text \<open>The line feed of \<open>'\n'\<close>, the apostrophe, and the bullet U+2022 of the listings.\<close>

definition newline :: code_unit where
  "newline = 0x0A"

definition apostrophe :: code_unit where
  "apostrophe = 0x27"

definition bullet :: code_unit where
  "bullet = 0x2022"

text \<open>
  \<open>s.split(sep)[0]\<close> for a one-unit separator: the units before the first separator, the
  whole string when there is none, the empty string for the empty string.
\<close>

definition split_first :: "code_unit \<Rightarrow> jstring \<Rightarrow> jstring" where
  "split_first sep s = takeWhile (\<lambda>c. c \<noteq> sep) s"

text \<open>\<open>s.substring(0, n)\<close>: the first \<open>n\<close> code units, all of \<open>s\<close> when it is shorter.\<close>

definition substring0 :: "nat \<Rightarrow> jstring \<Rightarrow> jstring" where
  "substring0 n s = take n s"

text \<open>\<open>lines.join('\n')\<close>.\<close>

fun join_lines :: "jstring list \<Rightarrow> jstring" where
  "join_lines [] = []"
| "join_lines [l] = l"
| "join_lines (l # m # ls) = l @ newline # join_lines (m # ls)"

text \<open>
  The text a template literal gives for a number that holds a natural number below
  \<open>10^21\<close> (document counts, HTTP status codes): its decimal digits.
\<close>

function number_to_string :: "nat \<Rightarrow> jstring" where
  "number_to_string n =
     (if n < 10 then [of_nat (48 + n)]
      else number_to_string (n div 10) @ [of_nat (48 + n mod 10)])"
  by pat_completeness auto
termination
  by (relation "measure id") auto

declare number_to_string.simps [simp del]

section \<open>The data store\<close>

text \<open>
  Documents carry the fields the handlers read. \<open>doc_id\<close> is the text that \<open>${doc._id}\<close>
  renders; an optional field is \<open>None\<close> when the document lacks it (or holds a value of
  another type than the query compares with). Dates are milliseconds since the epoch.

  A field compared with a date holds a date or an array of dates (a comparison matches
  an array when it matches one of its elements). The store keeps a date as a 64-bit
  count; the driver hands it over as a \<open>Date\<close>, which is an invalid \<open>Date\<close> when the
  count is beyond the 8.64e15 milliseconds a \<open>Date\<close> can hold.
\<close>

datatype date_field = DateValue int | DateArray "int list"

definition valid_time :: "int \<Rightarrow> bool" where
  "valid_time t = (- 8640000000000000 \<le> t \<and> t \<le> 8640000000000000)"

record mongo_doc =
  doc_id :: jstring

record user_doc = mongo_doc +
  email :: "jstring option"

record listing_doc = mongo_doc +
  last_scraped :: "date_field option"

record movie_doc = mongo_doc +
  title :: "jstring option"
  year :: "int option"
  numReviews :: "int option"

record sale_doc = mongo_doc +
  storeLocation :: "jstring option"

record customer_doc = mongo_doc +
  name :: "jstring option"
  accounts :: "int list option"

record ProjectDocument =
  project_id :: jstring
  status :: jstring
  has_audit_log :: bool
  status_updated_at :: "int option"

record jira_fields =
  project_key :: jstring
  summary :: jstring
  description :: jstring
  issuetype_name :: jstring

record http_request =
  url :: jstring
  http_method :: jstring
  authorization :: jstring
  content_type :: jstring
  accept :: jstring
  body :: jira_fields

text \<open>
  The world the handlers act on: the collections of the store (a collection is the list
  of its documents in the order \<open>find\<close> returns them), the HTTP requests sent so far, and
  \<open>store_fault\<close>, the error with which every driver call rejects while the store cannot
  be reached.
\<close>

record world =
  store_fault :: "jstring option"
  users :: "user_doc list"
  listingsAndReviews :: "listing_doc list"
  movies :: "movie_doc list"
  weather_data :: "mongo_doc list"
  sales :: "sale_doc list"
  customers :: "customer_doc list"
  projects :: "ProjectDocument list"
  audit_logs :: "mongo_doc list"
  requests :: "http_request list"

text \<open>
  A handler either returns the text of its one content item or rejects: with the error
  of a driver call, or with an exception of its own code, the \<open>RangeError\<close> of
  \<open>toISOString\<close> on an invalid \<open>Date\<close> or the \<open>TypeError\<close> of calling a method that the
  value does not have.
\<close>

datatype failure = DriverError jstring | RangeError | TypeError

type_synonym tool_result = "failure + jstring"

text \<open>\<open>collection.find(filter).toArray()\<close> and \<open>collection.countDocuments()\<close>: reads.\<close>

definition find_toArray ::
  "(world \<Rightarrow> 'd list) \<Rightarrow> ('d \<Rightarrow> bool) \<Rightarrow> world \<Rightarrow> (failure + 'd list) \<times> world" where
  "find_toArray coll flt w =
     (case store_fault w of
        Some e \<Rightarrow> (Inl (DriverError e), w)
      | None \<Rightarrow> (Inr (filter flt (coll w)), w))"

definition countDocuments ::
  "(world \<Rightarrow> 'd list) \<Rightarrow> world \<Rightarrow> (failure + nat) \<times> world" where
  "countDocuments coll w =
     (case store_fault w of
        Some e \<Rightarrow> (Inl (DriverError e), w)
      | None \<Rightarrow> (Inr (length (coll w)), w))"

section \<open>The runtime the handlers run in\<close>

text \<open>
  What \<open>fetch\<close> gives back: it rejects (the text is what \<open>${err}\<close> renders), or
  resolves to a response. \<open>text_body\<close> is \<open>None\<close> when \<open>response.text()\<close> rejects;
  \<open>json_body\<close> is what \<open>response.json()\<close> followed by reading \<open>data.key\<close> and
  \<open>data.id\<close> gives: an exception, or the two fields (\<open>None\<close> for null or undefined).
\<close>

datatype json_reply = JsonThrows jstring | JsonData "jstring option" "jstring option"

record http_response =
  ok :: bool
  status_code :: nat
  statusText :: jstring
  text_body :: "jstring option"
  json_body :: json_reply

datatype fetch_outcome = FetchRejects jstring | Response http_response

text \<open>
  The environment variables read by the ticket tool, the network as a function from the
  request to what \<open>fetch\<close> gives back, the platform's \<open>Buffer.from(s).toString('base64')\<close>
  and \<open>Date.prototype.toISOString\<close>, and the clock read by \<open>new Date()\<close>.
\<close>

record runtime =
  JIRA_BASE_URL :: "jstring option"
  JIRA_EMAIL :: "jstring option"
  JIRA_API_TOKEN :: "jstring option"
  fetch :: "http_request \<Rightarrow> fetch_outcome"
  base64 :: "jstring \<Rightarrow> jstring"
  toISOString :: "int \<Rightarrow> jstring"
  now :: int

text \<open>
  \<open>!v\<close> for an environment variable: true when it is undefined or the empty string. The
  ticket tool refuses to run when this holds of one of its three settings.
\<close>

definition unset :: "jstring option \<Rightarrow> bool" where
  "unset v = (case v of None \<Rightarrow> True | Some s \<Rightarrow> s = [])"

section \<open>The ticket tool\<close>

definition not_configured_text :: jstring where
  "not_configured_text =
     lit ''Jira integration is not configured. Ensure JIRA_BASE_URL, JIRA_EMAIL and JIRA_API_TOKEN are set.''"

text \<open>\<open>issue_description.split('\n')[0].substring(0, 100)\<close>\<close>

definition summary_line :: "jstring \<Rightarrow> jstring" where
  "summary_line issue_description = substring0 100 (split_first newline issue_description)"

text \<open>\<open>summary || `Governance issue for ${project_id}`\<close>\<close>

definition ticket_summary :: "jstring \<Rightarrow> jstring \<Rightarrow> jstring" where
  "ticket_summary pid issue_description =
     (if summary_line issue_description \<noteq> [] then summary_line issue_description
      else lit ''Governance issue for '' @ pid)"

definition jira_request ::
  "runtime \<Rightarrow> jstring \<Rightarrow> jstring \<Rightarrow> jstring \<Rightarrow> jstring \<Rightarrow> jstring \<Rightarrow> http_request" where
  "jira_request rt baseUrl jiraEmail token pid issue_description =
     \<lparr> url = baseUrl @ lit ''/rest/api/3/issue'',
       http_method = lit ''POST'',
       authorization = lit ''Basic '' @ base64 rt (jiraEmail @ lit '':'' @ token),
       content_type = lit ''application/json'',
       accept = lit ''application/json'',
       body = \<lparr> project_key = pid,
                summary = ticket_summary pid issue_description,
                description = issue_description,
                issuetype_name = lit ''Task'' \<rparr> \<rparr>"

text \<open>The \<open>try\<close> block of the handler, entered once the three settings are there.\<close>

definition post_issue ::
  "runtime \<Rightarrow> jstring \<Rightarrow> jstring \<Rightarrow> jstring \<Rightarrow> jstring \<Rightarrow> jstring \<Rightarrow> world
     \<Rightarrow> tool_result \<times> world" where
  "post_issue rt baseUrl jiraEmail token pid issue_description w =
     (let req = jira_request rt baseUrl jiraEmail token pid issue_description;
          w' = w\<lparr>requests := requests w @ [req]\<rparr>
      in case fetch rt req of
           FetchRejects err \<Rightarrow> (Inr (lit ''Error creating Jira ticket: '' @ err), w')
         | Response response \<Rightarrow>
             if \<not> ok response then
               let errorText = (case text_body response of Some t \<Rightarrow> t | None \<Rightarrow> [])
               in (Inr (lit ''Failed to create Jira ticket: ''
                        @ number_to_string (status_code response) @ lit '' ''
                        @ statusText response @ lit ''. '' @ errorText), w')
             else
               (case json_body response of
                  JsonThrows err \<Rightarrow> (Inr (lit ''Error creating Jira ticket: '' @ err), w')
                | JsonData key ident \<Rightarrow>
                    let ticketKey =
                          (case key of Some k \<Rightarrow> k
                           | None \<Rightarrow> (case ident of Some i \<Rightarrow> i | None \<Rightarrow> []))
                    in (Inr (lit ''Jira ticket created successfully''
                             @ (if ticketKey \<noteq> [] then lit '': '' @ ticketKey else [])
                             @ lit ''.''), w')))"

definition create_jira_ticket ::
  "runtime \<Rightarrow> jstring \<Rightarrow> jstring \<Rightarrow> world \<Rightarrow> tool_result \<times> world" where
  "create_jira_ticket rt pid issue_description w =
     (case JIRA_BASE_URL rt of
        None \<Rightarrow> (Inr not_configured_text, w)
      | Some baseUrl \<Rightarrow>
     (case JIRA_EMAIL rt of
        None \<Rightarrow> (Inr not_configured_text, w)
      | Some jiraEmail \<Rightarrow>
     (case JIRA_API_TOKEN rt of
        None \<Rightarrow> (Inr not_configured_text, w)
      | Some token \<Rightarrow>
          if baseUrl = [] \<or> jiraEmail = [] \<or> token = [] then (Inr not_configured_text, w)
          else post_issue rt baseUrl jiraEmail token pid issue_description w)))"

section \<open>The detection tools\<close>

text \<open>\<open>`\<bullet> ${x}`\<close>: the bullet, a space, the text.\<close>

definition bullet_line :: "jstring \<Rightarrow> jstring" where
  "bullet_line x = bullet # 0x20 # x"

definition detect_pii_violations :: "world \<Rightarrow> tool_result \<times> world" where
  "detect_pii_violations w =
     (case find_toArray users (\<lambda>d. email d \<noteq> None) w of
        (Inl e, w') \<Rightarrow> (Inl e, w')
      | (Inr usersWithEmail, w') \<Rightarrow>
          if length usersWithEmail = 0 then
            (Inr (lit ''No PII violations detected in sample_mflix.users.''), w')
          else
            let flagged = join_lines (map (\<lambda>doc. bullet_line (doc_id doc)) usersWithEmail)
            in (Inr (lit ''Documents with PII (email field) in sample_mflix.users:''
                     @ newline # flagged), w'))"

text \<open>\<open>new Date('2019-01-01')\<close>, midnight UTC, in milliseconds since the epoch.\<close>

definition cutoff :: int where
  "cutoff = 1546300800000"

text \<open>\<open>{ last_scraped: { $lt: cutoff } }\<close>\<close>

definition zombie_match :: "listing_doc \<Rightarrow> bool" where
  "zombie_match d =
     (case last_scraped d of
        Some (DateValue t) \<Rightarrow> t < cutoff
      | Some (DateArray ts) \<Rightarrow> list_ex (\<lambda>t. t < cutoff) ts
      | None \<Rightarrow> False)"

text \<open>
  The line of one listing. A \<open>Date\<close> and an array are both truthy, so
  \<open>doc.last_scraped.toISOString()\<close> is called on either: it throws a \<open>RangeError\<close> on an
  invalid \<open>Date\<close>, and an array has no such method.
\<close>

definition zombie_line :: "runtime \<Rightarrow> listing_doc \<Rightarrow> failure + jstring" where
  "zombie_line rt doc =
     (case last_scraped doc of
        Some (DateValue t) \<Rightarrow>
          if valid_time t then
            Inr (bullet_line (doc_id doc @ lit '' (last_scraped: ''
                   @ split_first (of_char CHR ''T'') (toISOString rt t) @ lit '')''))
          else Inl RangeError
      | Some (DateArray ts) \<Rightarrow> Inl TypeError
      | None \<Rightarrow> Inr (bullet_line (doc_id doc)))"

text \<open>\<open>xs.map(f)\<close> for an \<open>f\<close> that may throw: the first exception ends the call.\<close>

fun map_throwing :: "('a \<Rightarrow> failure + 'b) \<Rightarrow> 'a list \<Rightarrow> failure + 'b list" where
  "map_throwing f [] = Inr []"
| "map_throwing f (x # xs) =
     (case f x of
        Inl e \<Rightarrow> Inl e
      | Inr y \<Rightarrow> (case map_throwing f xs of Inl e \<Rightarrow> Inl e | Inr ys \<Rightarrow> Inr (y # ys)))"

definition detect_zombie_assets :: "runtime \<Rightarrow> world \<Rightarrow> tool_result \<times> world" where
  "detect_zombie_assets rt w =
     (case find_toArray listingsAndReviews zombie_match w of
        (Inl e, w') \<Rightarrow> (Inl e, w')
      | (Inr zombies, w') \<Rightarrow>
          if length zombies = 0 then
            (Inr (lit ''No zombie Airbnb listings detected.''), w')
          else
            (case map_throwing (zombie_line rt) zombies of
               Inl e \<Rightarrow> (Inl e, w')
             | Inr lines \<Rightarrow>
                 let flagged = join_lines lines
                 in (Inr (lit ''Zombie Airbnb listings (last_scraped < 2019-01-01):''
                          @ newline # flagged), w')))"

definition detect_unverified_deployments :: "world \<Rightarrow> tool_result \<times> world" where
  "detect_unverified_deployments w =
     (case find_toArray movies
             (\<lambda>d. (case year d of Some y \<Rightarrow> y > 2015 | None \<Rightarrow> False)
                   \<and> numReviews d = Some 0) w of
        (Inl e, w') \<Rightarrow> (Inl e, w')
      | (Inr found, w') \<Rightarrow>
          if length found = 0 then
            (Inr (lit ''No unverified movie deployments detected.''), w')
          else
            let flagged = join_lines
                  (map (\<lambda>doc. bullet_line (case title doc of Some t \<Rightarrow> t | None \<Rightarrow> doc_id doc))
                     found)
            in (Inr (lit ''Unverified deployments (movies from >2015 with zero viewer reviews):''
                     @ newline # flagged), w'))"

definition bottleneck_prefix :: jstring where
  "bottleneck_prefix = lit ''Performance bottleneck detected: sample_weatherdata.data contains ''"

definition no_bottleneck_prefix :: jstring where
  "no_bottleneck_prefix =
     lit ''No performance bottleneck detected: sample_weatherdata.data contains ''"

definition detect_performance_bottlenecks :: "world \<Rightarrow> tool_result \<times> world" where
  "detect_performance_bottlenecks w =
     (case countDocuments weather_data w of
        (Inl e, w') \<Rightarrow> (Inl e, w')
      | (Inr count, w') \<Rightarrow>
          if count > 5000 then
            (Inr (bottleneck_prefix @ number_to_string count
                  @ lit '' documents which exceeds the 5,000 document threshold.''), w')
          else
            (Inr (no_bottleneck_prefix @ number_to_string count @ lit '' documents.''), w'))"

definition detect_legacy_config :: "world \<Rightarrow> tool_result \<times> world" where
  "detect_legacy_config w =
     (case find_toArray sales (\<lambda>d. storeLocation d = Some (lit ''Denver'')) w of
        (Inl e, w') \<Rightarrow> (Inl e, w')
      | (Inr legacySales, w') \<Rightarrow>
          if length legacySales = 0 then
            (Inr (lit ''No legacy configuration entries detected in sample_supplies.sales.''), w')
          else
            let flagged = join_lines (map (\<lambda>doc. bullet_line (doc_id doc)) legacySales)
            in (Inr (lit ''Legacy configuration entries detected (storeLocation ''
                     @ apostrophe # lit ''Denver'' @ apostrophe # lit ''):''
                     @ newline # flagged), w'))"

definition audit_orphaned_accounts :: "world \<Rightarrow> tool_result \<times> world" where
  "audit_orphaned_accounts w =
     (case find_toArray customers (\<lambda>d. accounts d = Some []) w of
        (Inl e, w') \<Rightarrow> (Inl e, w')
      | (Inr orphaned, w') \<Rightarrow>
          if length orphaned = 0 then
            (Inr (lit ''No orphaned customer accounts detected.''), w')
          else
            let flagged = join_lines
                  (map (\<lambda>doc. bullet_line (case name doc of Some n \<Rightarrow> n | None \<Rightarrow> doc_id doc))
                     orphaned)
            in (Inr (lit ''Orphaned customer accounts detected (no associated accounts):''
                     @ newline # flagged), w'))"

definition drifted :: "ProjectDocument \<Rightarrow> bool" where
  "drifted p = (status p = lit ''deployed'' \<and> has_audit_log p = False)"

definition detect_sdlc_drift :: "world \<Rightarrow> tool_result \<times> world" where
  "detect_sdlc_drift w =
     (case find_toArray projects drifted w of
        (Inl e, w') \<Rightarrow> (Inl e, w')
      | (Inr driftedProjects, w') \<Rightarrow>
          if length driftedProjects = 0 then
            (Inr (lit ''No SDLC drift detected. All deployed projects have audit logs.''), w')
          else
            let flaggedList =
                  join_lines (map (\<lambda>project. bullet_line (project_id project)) driftedProjects)
            in (Inr (lit ''Design-Code Drift detected in the following projects:''
                     @ newline # flaggedList), w'))"

section \<open>Reconciliation\<close>

text \<open>
  \<open>projects.updateOne({ project_id }, { $set: ... })\<close>: the first document the filter
  matches is updated; \<open>matchedCount\<close> is 1 when there is one and 0 otherwise.
\<close>

fun update_first :: "('d \<Rightarrow> bool) \<Rightarrow> ('d \<Rightarrow> 'd) \<Rightarrow> 'd list \<Rightarrow> 'd list \<times> nat" where
  "update_first flt upd [] = ([], 0)"
| "update_first flt upd (d # ds) =
     (if flt d then (upd d # ds, 1)
      else (case update_first flt upd ds of (ds', n) \<Rightarrow> (d # ds', n)))"

definition updateOne_projects ::
  "(ProjectDocument \<Rightarrow> bool) \<Rightarrow> (ProjectDocument \<Rightarrow> ProjectDocument) \<Rightarrow> world
     \<Rightarrow> (failure + nat) \<times> world" where
  "updateOne_projects flt upd w =
     (case store_fault w of
        Some e \<Rightarrow> (Inl (DriverError e), w)
      | None \<Rightarrow>
          (case update_first flt upd (projects w) of
             (ps, matchedCount) \<Rightarrow> (Inr matchedCount, w\<lparr>projects := ps\<rparr>)))"

datatype action = update_docs | revert_status

definition reconcile_drift :: "runtime \<Rightarrow> jstring \<Rightarrow> action \<Rightarrow> world \<Rightarrow> tool_result \<times> world" where
  "reconcile_drift rt pid act w =
     (if act = revert_status then
        (case updateOne_projects (\<lambda>p. project_id p = pid)
                (\<lambda>p. p\<lparr>status := lit ''needs_review'', status_updated_at := Some (now rt)\<rparr>) w of
           (Inl e, w') \<Rightarrow> (Inl e, w')
         | (Inr matchedCount, w') \<Rightarrow>
             if matchedCount = 0 then
               (Inr (lit ''No project found with project_id '' @ apostrophe # pid
                     @ apostrophe # lit ''.''), w')
             else
               (Inr (lit ''Project '' @ apostrophe # pid @ apostrophe
                     # lit '' status reverted to needs_review and timestamp logged.''), w'))
      else
        (Inr (lit ''Documentation update requested for project '' @ apostrophe # pid
              @ apostrophe # lit ''.''), w))"

section \<open>The registered tools\<close>

datatype tool_call =
    Create_jira_ticket jstring jstring
  | Detect_pii_violations
  | Detect_zombie_assets
  | Detect_unverified_deployments
  | Detect_performance_bottlenecks
  | Detect_legacy_config
  | Audit_orphaned_accounts
  | Detect_sdlc_drift
  | Reconcile_drift jstring action

fun call_tool :: "runtime \<Rightarrow> tool_call \<Rightarrow> world \<Rightarrow> tool_result \<times> world" where
  "call_tool rt (Create_jira_ticket pid issue) w = create_jira_ticket rt pid issue w"
| "call_tool rt Detect_pii_violations w = detect_pii_violations w"
| "call_tool rt Detect_zombie_assets w = detect_zombie_assets rt w"
| "call_tool rt Detect_unverified_deployments w = detect_unverified_deployments w"
| "call_tool rt Detect_performance_bottlenecks w = detect_performance_bottlenecks w"
| "call_tool rt Detect_legacy_config w = detect_legacy_config w"
| "call_tool rt Audit_orphaned_accounts w = audit_orphaned_accounts w"
| "call_tool rt Detect_sdlc_drift w = detect_sdlc_drift w"
| "call_tool rt (Reconcile_drift pid act) w = reconcile_drift rt pid act w"


section \<open>The seeding script\<close>

definition sampleProjects :: "ProjectDocument list" where
  "sampleProjects =
     [ \<lparr> project_id = lit ''project-atlas'', status = lit ''deployed'',
         has_audit_log = True, status_updated_at = None \<rparr>,
       \<lparr> project_id = lit ''project-delta'', status = lit ''deployed'',
         has_audit_log = False, status_updated_at = None \<rparr>,
       \<lparr> project_id = lit ''project-orion'', status = lit ''deployed'',
         has_audit_log = False, status_updated_at = None \<rparr> ]"

text \<open>\<open>projects.deleteMany({})\<close>, then \<open>projects.insertMany(sampleProjects)\<close>.\<close>

definition seed :: "world \<Rightarrow> world" where
  "seed w = w\<lparr>projects := [] @ sampleProjects\<rparr>"

text \<open>A reachable store with every collection empty, and nothing sent on the network.\<close>

definition empty_world :: world where
  "empty_world =
     \<lparr> store_fault = None, users = [], listingsAndReviews = [], movies = [],
       weather_data = [], sales = [], customers = [], projects = [], audit_logs = [],
       requests = [] \<rparr>"

section \<open>Observations and examples\<close>

text \<open>
  The status of the project that \<open>updateOne({ project_id })\<close> would touch: the first
  document of \<open>projects\<close> with that identifier.
\<close>

definition project_status :: "jstring \<Rightarrow> world \<Rightarrow> jstring option" where
  "project_status pid w = map_option status (find (\<lambda>p. project_id p = pid) (projects w))"


text \<open>
  A runtime for the examples: no Jira setting is there and the network refuses every
  request. Its \<open>base64\<close> and \<open>toISOString\<close> are placeholders; no example reads them.
\<close>

definition offline_runtime :: runtime where
  "offline_runtime =
     \<lparr> JIRA_BASE_URL = None, JIRA_EMAIL = None, JIRA_API_TOKEN = None,
       fetch = (\<lambda>req. FetchRejects (lit ''TypeError: fetch failed'')),
       base64 = (\<lambda>s. s),
       toISOString = (\<lambda>t. lit ''1970-01-01T00:00:00.000Z''),
       now = 0 \<rparr>"

text \<open>The same runtime with the three Jira settings in place.\<close>

definition configured_runtime :: runtime where
  "configured_runtime =
     offline_runtime
       \<lparr> JIRA_BASE_URL := Some (lit ''https://jira.example''),
         JIRA_EMAIL := Some (lit ''bot@example.com''),
         JIRA_API_TOKEN := Some (lit ''secret'') \<rparr>"






text \<open>
  The lifecycle of an Action in the words of the specification, for comparison with the
  statuses that \<open>reconcile_drift\<close> writes: the six states, and the three full paths
  \<open>Proposed \<rightarrow> Approved \<rightarrow> Executing \<rightarrow> Executed\<close>,
  \<open>Proposed \<rightarrow> Approved \<rightarrow> Executing \<rightarrow> Failed\<close> and \<open>Proposed \<rightarrow> Rejected\<close>. A sequence of
  observed states is admitted when it is a prefix of one of them.
\<close>

datatype action_state = Proposed | Approved | Rejected | Executing | Executed | Failed

definition spec_lifecycle_paths :: "action_state list list" where
  "spec_lifecycle_paths =
     [ [Proposed, Approved, Executing, Executed],
       [Proposed, Approved, Executing, Failed],
       [Proposed, Rejected] ]"

definition spec_lifecycle_prefix :: "action_state list \<Rightarrow> bool" where
  "spec_lifecycle_prefix tr = list_ex (prefix tr) spec_lifecycle_paths"

text \<open>The seeded store after one and after two \<open>revert_status\<close> calls on \<open>project-delta\<close>.\<close>

definition reverted_once :: world where
  "reverted_once =
     snd (reconcile_drift offline_runtime (lit ''project-delta'') revert_status (seed empty_world))"

definition reverted_twice :: world where
  "reverted_twice =
     snd (reconcile_drift offline_runtime (lit ''project-delta'') revert_status reverted_once)"





section \<open>Facts about strings\<close>

lemma unat_of_nat_16: "(n :: nat) < 2 ^ 16 \<Longrightarrow> unat (of_nat n :: 16 word) = n"
  by (simp add: unat_of_nat)

lemma unat_of_char_16: "unat (of_char a :: 16 word) = of_char a"
proof -
  have lt: "(of_char a :: nat) < 2 ^ 16"
    using nat_of_char_less_256 [of a] by (simp del: nat_of_char_less_256)
  have "unat (of_char a :: 16 word) = unat (of_nat (of_char a) :: 16 word)"
    by (simp only: of_nat_of_char)
  also have "\<dots> = of_char a"
    using lt by (simp only: unat_of_nat_16)
  finally show ?thesis .
qed

lemma of_char_16_inj [simp]: "(of_char a :: 16 word) = of_char b \<longleftrightarrow> a = b"
proof
  assume h: "(of_char a :: 16 word) = of_char b"
  then have "unat (of_char a :: 16 word) = unat (of_char b :: 16 word)" by (rule arg_cong)
  then have "(of_char a :: nat) = of_char b" by (simp only: unat_of_char_16)
  thus "a = b" by (rule of_char_eqI)
next
  assume "a = b" thus "(of_char a :: 16 word) = of_char b" by (rule arg_cong)
qed

lemma lit_eq_iff [simp]: "lit a = lit b \<longleftrightarrow> a = b"
proof (induction a arbitrary: b)
  case Nil
  show ?case by (cases b) (simp_all add: lit_def)
next
  case (Cons c cs)
  show ?case
  proof (cases b)
    case Nil
    then show ?thesis by (simp add: lit_def)
  next
    case (Cons d ds)
    have "lit (c # cs) = lit (d # ds) \<longleftrightarrow> (of_char c :: 16 word) = of_char d \<and> lit cs = lit ds"
      by (simp only: lit_def list.map list.inject)
    then show ?thesis
      using Cons Cons.IH [of ds] by (simp only: of_char_16_inj list.inject)
  qed
qed

lemma lit_Nil [simp]: "lit [] = []"
  by (simp add: lit_def)

lemma lit_eq_Nil_iff [simp]: "lit s = [] \<longleftrightarrow> s = []"
  by (simp add: lit_def)


section \<open>Reads leave the world as it is\<close>

lemma find_toArray_frame: "snd (find_toArray coll flt w) = w"
  by (simp add: find_toArray_def split: option.split)

lemma countDocuments_frame: "snd (countDocuments coll w) = w"
  by (simp add: countDocuments_def split: option.split)

lemma detect_pii_violations_frame: "snd (detect_pii_violations w) = w"
  by (simp add: detect_pii_violations_def find_toArray_def Let_def split: option.split)

lemma detect_zombie_assets_frame: "snd (detect_zombie_assets rt w) = w"
  by (simp add: detect_zombie_assets_def find_toArray_def Let_def split: option.split sum.split)

lemma detect_unverified_deployments_frame: "snd (detect_unverified_deployments w) = w"
  by (simp add: detect_unverified_deployments_def find_toArray_def Let_def split: option.split)

lemma detect_performance_bottlenecks_frame: "snd (detect_performance_bottlenecks w) = w"
  by (simp add: detect_performance_bottlenecks_def countDocuments_def split: option.split)

lemma detect_legacy_config_frame: "snd (detect_legacy_config w) = w"
  by (simp add: detect_legacy_config_def find_toArray_def Let_def split: option.split)

lemma audit_orphaned_accounts_frame: "snd (audit_orphaned_accounts w) = w"
  by (simp add: audit_orphaned_accounts_def find_toArray_def Let_def split: option.split)

lemma detect_sdlc_drift_frame: "snd (detect_sdlc_drift w) = w"
  by (simp add: detect_sdlc_drift_def find_toArray_def Let_def split: option.split)

lemmas detection_frames =
  detect_pii_violations_frame detect_zombie_assets_frame detect_unverified_deployments_frame
  detect_performance_bottlenecks_frame detect_legacy_config_frame audit_orphaned_accounts_frame
  detect_sdlc_drift_frame


section \<open>Handlers return when the store answers\<close>













lemma reconcile_drift_returns:
  "store_fault w = None \<Longrightarrow> \<exists>t. fst (reconcile_drift rt pid act w) = Inr t"
  by (simp add: reconcile_drift_def updateOne_projects_def split: prod.split)

section \<open>The bottleneck threshold\<close>






section \<open>Detection reads only\<close>

text \<open>
  Claim C7. Each of the seven detection tools leaves the world it ran in unchanged:
  every collection of the store, whatever the store holds and whether or not it can be
  reached.
\<close>

theorem detections_read_only:
  "snd (detect_pii_violations w) = w \<and>
   snd (detect_zombie_assets rt w) = w \<and>
   snd (detect_unverified_deployments w) = w \<and>
   snd (detect_performance_bottlenecks w) = w \<and>
   snd (detect_legacy_config w) = w \<and>
   snd (audit_orphaned_accounts w) = w \<and>
   snd (detect_sdlc_drift w) = w"
  by (simp only: detection_frames)

section \<open>Reconciliation by documentation update\<close>

text \<open>
  Claim C10. For every \<open>project_id\<close>, \<open>reconcile_drift\<close> with the action
  \<open>update_docs\<close> writes to no collection and returns the message that a documentation
  update was requested, whether or not a project with that identifier exists.
\<close>

theorem reconcile_update_docs:
  "reconcile_drift rt pid update_docs w =
     (Inr (lit ''Documentation update requested for project '' @ apostrophe # pid
           @ apostrophe # lit ''.''), w)"
  by (simp add: reconcile_drift_def)

section \<open>Drift detection on the seeded projects\<close>

lemma seed_projects: "projects (seed w) = sampleProjects"
  by (simp add: seed_def)

lemma seed_store_fault: "store_fault (seed w) = store_fault w"
  by (simp add: seed_def)

lemma drifted_sampleProjects:
  "filter drifted sampleProjects =
     [ \<lparr> project_id = lit ''project-delta'', status = lit ''deployed'',
         has_audit_log = False, status_updated_at = None \<rparr>,
       \<lparr> project_id = lit ''project-orion'', status = lit ''deployed'',
         has_audit_log = False, status_updated_at = None \<rparr> ]"
  by (simp add: sampleProjects_def drifted_def)

lemma delta_before_orion: "lit ''project-delta'' < lit ''project-orion''"
  by (simp add: lit_def)

lemma seeded_report:
  assumes "store_fault w = None"
  shows "detect_sdlc_drift (seed w) =
           (Inr (lit ''Design-Code Drift detected in the following projects:''
                 @ [0x0A, 0x2022, 0x20] @ lit ''project-delta''
                 @ [0x0A, 0x2022, 0x20] @ lit ''project-orion''), seed w)"
proof -
  have "find_toArray projects drifted (seed w) = (Inr (filter drifted sampleProjects), seed w)"
    using assms by (simp add: find_toArray_def seed_store_fault seed_projects)
  then show ?thesis
    by (simp add: detect_sdlc_drift_def drifted_sampleProjects bullet_line_def bullet_def
        newline_def)
qed

lemma atlas_not_reported:
  "\<not> sublist (lit ''project-atlas'')
       (lit ''Design-Code Drift detected in the following projects:''
        @ [0x0A, 0x2022, 0x20] @ lit ''project-delta''
        @ [0x0A, 0x2022, 0x20] @ lit ''project-orion'')"
  by (simp add: lit_def sublist_Cons_right prefix_Cons)

text \<open>
  Claim C3. On the seeded \<open>projects\<close> collection \<open>detect_sdlc_drift\<close> reports drift and
  lists exactly \<open>project-delta\<close> and \<open>project-orion\<close>, one bulleted line each, in this
  order, which is the ascending order of the identifiers; \<open>project-atlas\<close> is not in
  the report. The report is written out unit by unit: a line feed is \<open>0x0A\<close>, the
  bullet \<open>0x2022\<close>, the space \<open>0x20\<close>.
\<close>

theorem seeded_drift_detection:
  assumes "store_fault w = None"
  shows "detect_sdlc_drift (seed w) =
           (Inr (lit ''Design-Code Drift detected in the following projects:''
                 @ [0x0A, 0x2022, 0x20] @ lit ''project-delta''
                 @ [0x0A, 0x2022, 0x20] @ lit ''project-orion''), seed w)
         \<and> (\<exists>t a b c. fst (detect_sdlc_drift (seed w)) = Inr t
               \<and> t = a @ lit ''project-delta'' @ b @ lit ''project-orion'' @ c
               \<and> \<not> sublist (lit ''project-atlas'') t)
         \<and> map project_id (filter drifted (projects (seed w)))
             = [lit ''project-delta'', lit ''project-orion'']
         \<and> lit ''project-delta'' < lit ''project-orion''"
proof -
  let ?t = "lit ''Design-Code Drift detected in the following projects:''
              @ [0x0A, 0x2022, 0x20] @ lit ''project-delta''
              @ [0x0A, 0x2022, 0x20] @ lit ''project-orion''"
  have report: "detect_sdlc_drift (seed w) = (Inr ?t, seed w)"
    using assms by (rule seeded_report)
  have "?t = (lit ''Design-Code Drift detected in the following projects:''
                @ [0x0A, 0x2022, 0x20])
             @ lit ''project-delta'' @ [0x0A, 0x2022, 0x20] @ lit ''project-orion'' @ []"
    by simp
  with report atlas_not_reported
  have named: "\<exists>t a b c. fst (detect_sdlc_drift (seed w)) = Inr t
               \<and> t = a @ lit ''project-delta'' @ b @ lit ''project-orion'' @ c
               \<and> \<not> sublist (lit ''project-atlas'') t"
    by (intro exI [of _ ?t]
          exI [of _ "lit ''Design-Code Drift detected in the following projects:''
                       @ [0x0A, 0x2022, 0x20]"]
          exI [of _ "[0x0A, 0x2022, 0x20]"] exI [of _ "[]"]) simp
  have ids: "map project_id (filter drifted (projects (seed w)))
             = [lit ''project-delta'', lit ''project-orion'']"
    by (simp add: seed_projects drifted_sampleProjects)
  from report named ids delta_before_orion show ?thesis
    by (intro conjI)
qed

theorem seeded_drift_detection_witness:
  "store_fault empty_world = None
   \<and> fst (detect_sdlc_drift (seed empty_world)) =
       Inr (lit ''Design-Code Drift detected in the following projects:''
            @ [0x0A, 0x2022, 0x20] @ lit ''project-delta''
            @ [0x0A, 0x2022, 0x20] @ lit ''project-orion'')"
proof -
  have up: "store_fault empty_world = None"
    by (simp add: empty_world_def)
  from seeded_drift_detection [OF up] up show ?thesis
    by simp
qed

section \<open>The ticket tool without its settings\<close>



section \<open>The summary of a ticket\<close>

lemma split_first_shape:
  "sep \<notin> set (split_first sep s)
   \<and> (s = split_first sep s \<or> (\<exists>rest. s = split_first sep s @ sep # rest))"
proof -
  have "sep \<notin> set (takeWhile (\<lambda>c. c \<noteq> sep) s)"
    by (auto dest: set_takeWhileD)
  moreover have "s = takeWhile (\<lambda>c. c \<noteq> sep) s
                 \<or> (\<exists>rest. s = takeWhile (\<lambda>c. c \<noteq> sep) s @ sep # rest)"
  proof (cases "dropWhile (\<lambda>c. c \<noteq> sep) s")
    case Nil
    then have "takeWhile (\<lambda>c. c \<noteq> sep) s = s"
      by (metis append_Nil2 takeWhile_dropWhile_id)
    then have "s = takeWhile (\<lambda>c. c \<noteq> sep) s" by (rule sym)
    then show ?thesis by (rule disjI1)
  next
    case (Cons d ds)
    then have "d = sep"
      using hd_dropWhile [of "\<lambda>c. c \<noteq> sep" s] by auto
    with Cons have "s = takeWhile (\<lambda>c. c \<noteq> sep) s @ sep # ds"
      by (metis takeWhile_dropWhile_id)
    then show ?thesis by blast
  qed
  ultimately show ?thesis by (simp add: split_first_def)
qed

lemma split_first_empty_iff:
  "s \<noteq> [] \<Longrightarrow> split_first sep s = [] \<longleftrightarrow> hd s = sep"
  by (cases s) (simp_all add: split_first_def)

lemma post_issue_request:
  "requests (snd (post_issue rt b e k pid issue w))
     = requests w @ [jira_request rt b e k pid issue]"
  by (simp add: post_issue_def Let_def split: fetch_outcome.split json_reply.split option.split)

lemma ticket_summary_example:
  "summary (body (jira_request configured_runtime b e k (lit ''GOV'')
      (lit ''Drift in project-delta'' @ newline # lit ''Deployed without an audit log.'')))
   = lit ''Drift in project-delta''"
  by (simp add: jira_request_def ticket_summary_def summary_line_def substring0_def
      split_first_def lit_def newline_def)

text \<open>
  Claim C9. With the three settings in place and a non-empty \<open>issue_description\<close>, the
  one request sent carries as summary the first 100 code units of the first line of
  \<open>issue_description\<close>; when the first line is empty, that is when the description
  begins with a line feed, the summary is \<open>Governance issue for\<close> followed by the
  \<open>project_id\<close>.
\<close>

theorem ticket_summary_first_line:
  assumes "\<not> unset (JIRA_BASE_URL rt)" "\<not> unset (JIRA_EMAIL rt)" "\<not> unset (JIRA_API_TOKEN rt)"
    and "issue \<noteq> []"
  shows "\<exists>req first_line.
           requests (snd (create_jira_ticket rt pid issue w)) = requests w @ [req]
         \<and> newline \<notin> set first_line
         \<and> (issue = first_line \<or> (\<exists>rest. issue = first_line @ newline # rest))
         \<and> (first_line = [] \<longleftrightarrow> hd issue = newline)
         \<and> summary (body req) =
             (if first_line = [] then lit ''Governance issue for '' @ pid
              else take 100 first_line)"
proof -
  from assms obtain b e k where env:
    "JIRA_BASE_URL rt = Some b" "b \<noteq> []" "JIRA_EMAIL rt = Some e" "e \<noteq> []"
    "JIRA_API_TOKEN rt = Some k" "k \<noteq> []"
    by (auto simp: unset_def split: option.splits)
  let ?req = "jira_request rt b e k pid issue"
  let ?l = "split_first newline issue"
  have "create_jira_ticket rt pid issue w = post_issue rt b e k pid issue w"
    using env by (simp add: create_jira_ticket_def)
  then have sent: "requests (snd (create_jira_ticket rt pid issue w)) = requests w @ [?req]"
    by (simp add: post_issue_request)
  have summ: "summary (body ?req) =
                (if ?l = [] then lit ''Governance issue for '' @ pid else take 100 ?l)"
    by (simp add: jira_request_def ticket_summary_def summary_line_def substring0_def)
  have shape: "newline \<notin> set ?l \<and> (issue = ?l \<or> (\<exists>rest. issue = ?l @ newline # rest))"
    by (rule split_first_shape)
  have empty: "?l = [] \<longleftrightarrow> hd issue = newline"
    using assms(4) by (rule split_first_empty_iff)
  from sent summ shape empty show ?thesis
    by blast
qed

theorem ticket_summary_first_line_witness:
  "\<not> unset (JIRA_BASE_URL configured_runtime)
   \<and> \<not> unset (JIRA_EMAIL configured_runtime)
   \<and> \<not> unset (JIRA_API_TOKEN configured_runtime)
   \<and> newline # lit ''Audit log missing'' \<noteq> []
   \<and> (\<exists>req. requests (snd (create_jira_ticket configured_runtime (lit ''GOV'')
                               (newline # lit ''Audit log missing'') empty_world)) = [req]
            \<and> summary (body req) = lit ''Governance issue for '' @ lit ''GOV'')"
proof -
  have b: "\<not> unset (JIRA_BASE_URL configured_runtime)"
    by (simp add: configured_runtime_def offline_runtime_def unset_def)
  have e: "\<not> unset (JIRA_EMAIL configured_runtime)"
    by (simp add: configured_runtime_def offline_runtime_def unset_def)
  have k: "\<not> unset (JIRA_API_TOKEN configured_runtime)"
    by (simp add: configured_runtime_def offline_runtime_def unset_def)
  have ne: "newline # lit ''Audit log missing'' \<noteq> []"
    by simp
  from ticket_summary_first_line [OF b e k ne, of "lit ''GOV''" empty_world]
  obtain req first_line where
    sent: "requests (snd (create_jira_ticket configured_runtime (lit ''GOV'')
             (newline # lit ''Audit log missing'') empty_world)) = requests empty_world @ [req]"
    and first: "first_line = [] \<longleftrightarrow> hd (newline # lit ''Audit log missing'') = newline"
    and summ: "summary (body req) =
                 (if first_line = [] then lit ''Governance issue for '' @ lit ''GOV''
                  else take 100 first_line)"
    by blast
  from first have "first_line = []" by simp
  with summ have "summary (body req) = lit ''Governance issue for '' @ lit ''GOV''"
    by simp
  moreover from sent have "requests (snd (create_jira_ticket configured_runtime (lit ''GOV'')
             (newline # lit ''Audit log missing'') empty_world)) = [req]"
    by (simp add: empty_world_def)
  ultimately show ?thesis
    using b e k ne by blast
qed

section \<open>What reconciliation does to a project\<close>

lemma update_first_none:
  "\<forall>p\<in>set ps. \<not> flt p \<Longrightarrow> update_first flt upd ps = (ps, 0)"
  by (induction ps) simp_all

lemma update_first_at:
  "\<forall>q\<in>set pre. \<not> flt q \<Longrightarrow> flt p \<Longrightarrow>
   update_first flt upd (pre @ p # post) = (pre @ upd p # post, 1)"
  by (induction pre) simp_all

lemma reverted_once_projects:
  "projects reverted_once =
     [ \<lparr> project_id = lit ''project-atlas'', status = lit ''deployed'',
         has_audit_log = True, status_updated_at = None \<rparr>,
       \<lparr> project_id = lit ''project-delta'', status = lit ''needs_review'',
         has_audit_log = False, status_updated_at = Some 0 \<rparr>,
       \<lparr> project_id = lit ''project-orion'', status = lit ''deployed'',
         has_audit_log = False, status_updated_at = None \<rparr> ]"
  by (simp add: reverted_once_def reconcile_drift_def updateOne_projects_def seed_def
      empty_world_def sampleProjects_def offline_runtime_def)

lemma reverted_once_fault: "store_fault reverted_once = None"
  by (simp add: reverted_once_def reconcile_drift_def updateOne_projects_def seed_def
      empty_world_def sampleProjects_def offline_runtime_def)

lemma reverted_once_audit_logs: "audit_logs reverted_once = []"
  by (simp add: reverted_once_def reconcile_drift_def updateOne_projects_def seed_def
      empty_world_def sampleProjects_def offline_runtime_def)

lemma reverted_twice_projects: "projects reverted_twice = projects reverted_once"
  by (simp add: reverted_twice_def reconcile_drift_def updateOne_projects_def
      reverted_once_fault reverted_once_projects offline_runtime_def)

lemma no_relabelling_fits:
  "\<not> spec_lifecycle_prefix [a, b, b]"
  by (simp add: spec_lifecycle_prefix_def spec_lifecycle_paths_def)

text \<open>
  The statuses of \<open>project-delta\<close> in the seeded store under two \<open>revert_status\<close>
  calls and one \<open>update_docs\<close> call: \<open>deployed\<close>, \<open>needs_review\<close>, \<open>needs_review\<close>.
  Every call succeeds, the second transition repeats the first, and however the statuses
  are read as lifecycle states the sequence is no prefix of a lifecycle path.
\<close>

theorem reconcile_drift_lifecycle_counterexample:
  "project_status (lit ''project-delta'') (seed empty_world) = Some (lit ''deployed'')
   \<and> fst (reconcile_drift offline_runtime (lit ''project-delta'') revert_status (seed empty_world))
       = Inr (lit ''Project '' @ apostrophe # lit ''project-delta'' @ apostrophe
              # lit '' status reverted to needs_review and timestamp logged.'')
   \<and> project_status (lit ''project-delta'') reverted_once = Some (lit ''needs_review'')
   \<and> fst (reconcile_drift offline_runtime (lit ''project-delta'') revert_status reverted_once)
       = Inr (lit ''Project '' @ apostrophe # lit ''project-delta'' @ apostrophe
              # lit '' status reverted to needs_review and timestamp logged.'')
   \<and> project_status (lit ''project-delta'') reverted_twice = Some (lit ''needs_review'')
   \<and> fst (reconcile_drift offline_runtime (lit ''project-delta'') update_docs reverted_twice)
       = Inr (lit ''Documentation update requested for project '' @ apostrophe
              # lit ''project-delta'' @ apostrophe # lit ''.'')
   \<and> \<not> (\<exists>f. spec_lifecycle_prefix
             (map f [lit ''deployed'', lit ''needs_review'', lit ''needs_review'']))"
proof -
  have s0: "project_status (lit ''project-delta'') (seed empty_world) = Some (lit ''deployed'')"
    by (simp add: project_status_def seed_def sampleProjects_def)
  have r1: "fst (reconcile_drift offline_runtime (lit ''project-delta'') revert_status
                  (seed empty_world))
       = Inr (lit ''Project '' @ apostrophe # lit ''project-delta'' @ apostrophe
              # lit '' status reverted to needs_review and timestamp logged.'')"
    by (simp add: reconcile_drift_def updateOne_projects_def seed_def
        empty_world_def sampleProjects_def)
  have s1: "project_status (lit ''project-delta'') reverted_once = Some (lit ''needs_review'')"
    by (simp add: project_status_def reverted_once_projects)
  have r2: "fst (reconcile_drift offline_runtime (lit ''project-delta'') revert_status
                  reverted_once)
       = Inr (lit ''Project '' @ apostrophe # lit ''project-delta'' @ apostrophe
              # lit '' status reverted to needs_review and timestamp logged.'')"
    by (simp add: reconcile_drift_def updateOne_projects_def reverted_once_fault
        reverted_once_projects)
  have s2: "project_status (lit ''project-delta'') reverted_twice = Some (lit ''needs_review'')"
    by (simp add: project_status_def reverted_twice_projects reverted_once_projects)
  have r3: "fst (reconcile_drift offline_runtime (lit ''project-delta'') update_docs
                  reverted_twice)
       = Inr (lit ''Documentation update requested for project '' @ apostrophe
              # lit ''project-delta'' @ apostrophe # lit ''.'')"
    by (simp add: reconcile_drift_def)
  have nf: "\<not> (\<exists>f. spec_lifecycle_prefix
             (map f [lit ''deployed'', lit ''needs_review'', lit ''needs_review'']))"
    by (simp add: no_relabelling_fits)
  from s0 r1 s1 r2 s2 r3 nf show ?thesis
    by (intro conjI)
qed

lemma updateOne_projects_ok:
  "store_fault w = None \<Longrightarrow>
   updateOne_projects flt upd w =
     (Inr (snd (update_first flt upd (projects w))),
      w\<lparr>projects := fst (update_first flt upd (projects w))\<rparr>)"
  by (simp add: updateOne_projects_def split: prod.split)

lemma revert_status_absent:
  assumes "store_fault w = None" and "pid \<notin> project_id ` set (projects w)"
  shows "reconcile_drift rt pid revert_status w =
           (Inr (lit ''No project found with project_id '' @ 0x27 # pid @ 0x27 # lit ''.''), w)"
proof -
  from assms(2) have "\<forall>p\<in>set (projects w). \<not> project_id p = pid"
    by auto
  then have "update_first (\<lambda>p. project_id p = pid)
               (\<lambda>p. p\<lparr>status := lit ''needs_review'', status_updated_at := Some (now rt)\<rparr>)
               (projects w) = (projects w, 0)"
    by (rule update_first_none)
  with assms(1) show ?thesis
    by (simp add: reconcile_drift_def updateOne_projects_ok apostrophe_def)
qed

lemma revert_status_present:
  assumes "store_fault w = None" and "projects w = pre @ p # post"
    and "pid \<notin> project_id ` set pre" and "project_id p = pid"
  shows "reconcile_drift rt pid revert_status w =
           (Inr (lit ''Project '' @ 0x27 # pid @ 0x27
                 # lit '' status reverted to needs_review and timestamp logged.''),
            w\<lparr>projects :=
                pre @ p\<lparr>status := lit ''needs_review'',
                         status_updated_at := Some (now rt)\<rparr> # post\<rparr>)"
proof -
  from assms(3) have "\<forall>q\<in>set pre. \<not> project_id q = pid"
    by auto
  then have "update_first (\<lambda>p. project_id p = pid)
               (\<lambda>p. p\<lparr>status := lit ''needs_review'', status_updated_at := Some (now rt)\<rparr>)
               (pre @ p # post)
             = (pre @ p\<lparr>status := lit ''needs_review'',
                          status_updated_at := Some (now rt)\<rparr> # post, 1)"
    using assms(4) by (rule update_first_at)
  with assms(1,2) show ?thesis
    by (simp add: reconcile_drift_def updateOne_projects_ok apostrophe_def)
qed

text \<open>
  Claim C1, as the code has it. A project handled by \<open>reconcile_drift\<close> has no
  lifecycle of proposal, approval and execution. With the store reachable no call is
  refused, whatever was done to the project before. \<open>update_docs\<close> leaves the whole
  store as it was. \<open>revert_status\<close> reports that no project was found and leaves the
  store as it was when no project has the given identifier; otherwise it reports the
  reversion and changes the first project with that identifier and nothing else, setting
  its status to \<open>needs_review\<close>, from any status, and its \<open>status_updated_at\<close> to the
  time of the call. The apostrophe of the messages is \<open>0x27\<close>.
\<close>

theorem reconcile_drift_transitions:
  assumes "store_fault w = None"
  shows "(\<exists>t. fst (reconcile_drift rt pid act w) = Inr t)
       \<and> reconcile_drift rt pid update_docs w =
           (Inr (lit ''Documentation update requested for project '' @ 0x27 # pid
                 @ 0x27 # lit ''.''), w)
       \<and> (pid \<notin> project_id ` set (projects w) \<longrightarrow>
            reconcile_drift rt pid revert_status w =
              (Inr (lit ''No project found with project_id '' @ 0x27 # pid
                    @ 0x27 # lit ''.''), w))
       \<and> (pid \<in> project_id ` set (projects w) \<longrightarrow>
            (\<exists>pre p post.
               projects w = pre @ p # post
             \<and> pid \<notin> project_id ` set pre
             \<and> project_id p = pid
             \<and> reconcile_drift rt pid revert_status w =
                 (Inr (lit ''Project '' @ 0x27 # pid @ 0x27
                       # lit '' status reverted to needs_review and timestamp logged.''),
                  w\<lparr>projects :=
                      pre @ p\<lparr>status := lit ''needs_review'',
                               status_updated_at := Some (now rt)\<rparr> # post\<rparr>)))"
proof -
  have ret: "\<exists>t. fst (reconcile_drift rt pid act w) = Inr t"
    using assms by (rule reconcile_drift_returns)
  have docs: "reconcile_drift rt pid update_docs w =
           (Inr (lit ''Documentation update requested for project '' @ 0x27 # pid
                 @ 0x27 # lit ''.''), w)"
    by (simp add: reconcile_drift_def apostrophe_def)
  have absent: "pid \<notin> project_id ` set (projects w) \<longrightarrow>
            reconcile_drift rt pid revert_status w =
              (Inr (lit ''No project found with project_id '' @ 0x27 # pid
                    @ 0x27 # lit ''.''), w)"
    using assms by (intro impI revert_status_absent)
  have present: "pid \<in> project_id ` set (projects w) \<longrightarrow>
            (\<exists>pre p post.
               projects w = pre @ p # post
             \<and> pid \<notin> project_id ` set pre
             \<and> project_id p = pid
             \<and> reconcile_drift rt pid revert_status w =
                 (Inr (lit ''Project '' @ 0x27 # pid @ 0x27
                       # lit '' status reverted to needs_review and timestamp logged.''),
                  w\<lparr>projects :=
                      pre @ p\<lparr>status := lit ''needs_review'',
                               status_updated_at := Some (now rt)\<rparr> # post\<rparr>))"
  proof
    assume "pid \<in> project_id ` set (projects w)"
    then have "\<exists>p\<in>set (projects w). project_id p = pid"
      by auto
    from split_list_first_prop [OF this] obtain pre p post where split:
      "projects w = pre @ p # post" "project_id p = pid"
      "\<forall>q\<in>set pre. \<not> project_id q = pid"
      by blast
    from split(3) have before: "pid \<notin> project_id ` set pre"
      by auto
    from assms split(1) before split(2)
    have "reconcile_drift rt pid revert_status w =
                 (Inr (lit ''Project '' @ 0x27 # pid @ 0x27
                       # lit '' status reverted to needs_review and timestamp logged.''),
                  w\<lparr>projects :=
                      pre @ p\<lparr>status := lit ''needs_review'',
                               status_updated_at := Some (now rt)\<rparr> # post\<rparr>)"
      by (rule revert_status_present)
    with split(1,2) before show "\<exists>pre p post.
               projects w = pre @ p # post
             \<and> pid \<notin> project_id ` set pre
             \<and> project_id p = pid
             \<and> reconcile_drift rt pid revert_status w =
                 (Inr (lit ''Project '' @ 0x27 # pid @ 0x27
                       # lit '' status reverted to needs_review and timestamp logged.''),
                  w\<lparr>projects :=
                      pre @ p\<lparr>status := lit ''needs_review'',
                               status_updated_at := Some (now rt)\<rparr> # post\<rparr>)"
      by blast
  qed
  from ret docs absent present show ?thesis
    by (intro conjI)
qed

theorem reconcile_drift_transitions_witness:
  "store_fault (seed empty_world) = None
   \<and> lit ''project-delta'' \<in> project_id ` set (projects (seed empty_world))
   \<and> lit ''project-zeta'' \<notin> project_id ` set (projects (seed empty_world))
   \<and> (\<exists>t. fst (reconcile_drift offline_runtime (lit ''project-delta'') revert_status
                  (seed empty_world)) = Inr t)
   \<and> reconcile_drift offline_runtime (lit ''project-zeta'') revert_status (seed empty_world) =
       (Inr (lit ''No project found with project_id '' @ 0x27 # lit ''project-zeta''
             @ 0x27 # lit ''.''), seed empty_world)
   \<and> (\<exists>pre p post.
         projects (seed empty_world) = pre @ p # post
       \<and> project_id p = lit ''project-delta''
       \<and> reconcile_drift offline_runtime (lit ''project-delta'') revert_status
            (seed empty_world) =
           (Inr (lit ''Project '' @ 0x27 # lit ''project-delta'' @ 0x27
                 # lit '' status reverted to needs_review and timestamp logged.''),
            (seed empty_world)\<lparr>projects :=
               pre @ p\<lparr>status := lit ''needs_review'',
                        status_updated_at := Some (now offline_runtime)\<rparr> # post\<rparr>))"
proof -
  have up: "store_fault (seed empty_world) = None"
    by (simp add: seed_def empty_world_def)
  have there: "lit ''project-delta'' \<in> project_id ` set (projects (seed empty_world))"
    by (simp add: seed_def sampleProjects_def)
  have away: "lit ''project-zeta'' \<notin> project_id ` set (projects (seed empty_world))"
    by (simp add: seed_def sampleProjects_def)
  note delta = reconcile_drift_transitions
                 [OF up, of offline_runtime "lit ''project-delta''" revert_status]
  note zeta = reconcile_drift_transitions
                 [OF up, of offline_runtime "lit ''project-zeta''" revert_status]
  from delta [THEN conjunct1]
  have 1: "\<exists>t. fst (reconcile_drift offline_runtime (lit ''project-delta'')
                              revert_status (seed empty_world)) = Inr t" .
  from zeta [THEN conjunct2, THEN conjunct2, THEN conjunct1] away have 2:
    "reconcile_drift offline_runtime (lit ''project-zeta'') revert_status (seed empty_world) =
       (Inr (lit ''No project found with project_id '' @ 0x27 # lit ''project-zeta''
             @ 0x27 # lit ''.''), seed empty_world)"
    by (rule mp)
  from delta [THEN conjunct2, THEN conjunct2, THEN conjunct2] there have "\<exists>pre p post.
         projects (seed empty_world) = pre @ p # post
       \<and> lit ''project-delta'' \<notin> project_id ` set pre
       \<and> project_id p = lit ''project-delta''
       \<and> reconcile_drift offline_runtime (lit ''project-delta'') revert_status
            (seed empty_world) =
           (Inr (lit ''Project '' @ 0x27 # lit ''project-delta'' @ 0x27
                 # lit '' status reverted to needs_review and timestamp logged.''),
            (seed empty_world)\<lparr>projects :=
               pre @ p\<lparr>status := lit ''needs_review'',
                        status_updated_at := Some (now offline_runtime)\<rparr> # post\<rparr>)"
    by (rule mp)
  then have 3: "\<exists>pre p post.
         projects (seed empty_world) = pre @ p # post
       \<and> project_id p = lit ''project-delta''
       \<and> reconcile_drift offline_runtime (lit ''project-delta'') revert_status
            (seed empty_world) =
           (Inr (lit ''Project '' @ 0x27 # lit ''project-delta'' @ 0x27
                 # lit '' status reverted to needs_review and timestamp logged.''),
            (seed empty_world)\<lparr>projects :=
               pre @ p\<lparr>status := lit ''needs_review'',
                        status_updated_at := Some (now offline_runtime)\<rparr> # post\<rparr>)"
    by blast
  from up there away 1 2 3 show ?thesis
    by (intro conjI)
qed

section \<open>The audit log under reconciliation\<close>

text \<open>No tool writes to \<open>audit_logs\<close>, whatever it is called with.\<close>

lemma post_issue_audit_logs:
  "audit_logs (snd (post_issue rt b e k pid issue w)) = audit_logs w"
  by (simp add: post_issue_def Let_def split: fetch_outcome.split json_reply.split option.split)

lemma create_jira_ticket_audit_logs:
  "audit_logs (snd (create_jira_ticket rt pid issue w)) = audit_logs w"
  by (simp add: create_jira_ticket_def post_issue_audit_logs split: option.split)

lemma reconcile_drift_audit_logs:
  "audit_logs (snd (reconcile_drift rt pid act w)) = audit_logs w"
  by (simp add: reconcile_drift_def updateOne_projects_def split: option.split prod.split)

lemma no_tool_writes_audit_logs:
  "audit_logs (snd (call_tool rt c w)) = audit_logs w"
  by (cases c)
    (simp_all add: detection_frames create_jira_ticket_audit_logs reconcile_drift_audit_logs)

text \<open>
  Claim C2, evaluated on the seeded store: \<open>revert_status\<close> on \<open>project-delta\<close> moves
  the project from \<open>deployed\<close> to \<open>needs_review\<close>, and \<open>audit_logs\<close> is as empty
  afterwards as it was before.
\<close>

theorem revert_status_leaves_audit_log_empty:
  "audit_logs (seed empty_world) = []
   \<and> project_status (lit ''project-delta'') (seed empty_world) = Some (lit ''deployed'')
   \<and> project_status (lit ''project-delta'') reverted_once = Some (lit ''needs_review'')
   \<and> audit_logs reverted_once = []"
  by (simp add: project_status_def reverted_once_projects reverted_once_audit_logs
      seed_def sampleProjects_def empty_world_def)

section \<open>What a tool call gives back\<close>








section \<open>The order of what detection lists\<close>


















end
